theory Spec2Isabelle
  imports Main
begin

section \<open>Learner actions: \<^verbatim>\<open>core/templates/domain/statistics/learner-action.model.ts\<close>\<close>

subsection \<open>Runtime values\<close>

text \<open>
  Customization args arrive from the backend as plain JavaScript objects. The module never
  computes with them; it only stores and returns them. They are modelled as JSON
  values. The type \<open>'n\<close> stands for the TypeScript type \<^verbatim>\<open>number\<close>: the module
  never inspects or computes with a number, so the model is parametric in its representation.
  An object is the list of its properties (keys are distinct in a JavaScript object).
\<close>

datatype 'n jsval =
    JNull
  | JBool bool
  | JNumber 'n
  | JString string
  | JArray "'n jsval list"
  | JObject "(string \<times> 'n jsval) list"

text \<open>Property access \<^verbatim>\<open>obj[key]\<close>; \<open>None\<close> is JavaScript's \<^verbatim>\<open>undefined\<close>.\<close>

fun property :: "string \<Rightarrow> 'n jsval \<Rightarrow> 'n jsval option" where
  "property k (JObject kvs) = map_of kvs k"
| "property k _ = None"

subsection \<open>The customization-args interfaces (lines 23--39)\<close>

text \<open>
  Each declared field has the type \<^verbatim>\<open>{value: string}\<close> or \<^verbatim>\<open>{value: number}\<close>.
  TypeScript interfaces are structural: a value conforms when every declared property is
  present with the declared type.
\<close>

definition value_string :: "'n jsval \<Rightarrow> bool" where
  "value_string w = (case property ''value'' w of Some (JString s) \<Rightarrow> True | _ \<Rightarrow> False)"

definition value_number :: "'n jsval \<Rightarrow> bool" where
  "value_number w = (case property ''value'' w of Some (JNumber n) \<Rightarrow> True | _ \<Rightarrow> False)"

definition has_field :: "string \<Rightarrow> ('n jsval \<Rightarrow> bool) \<Rightarrow> 'n jsval \<Rightarrow> bool" where
  "has_field k ty p = (case property k p of Some w \<Rightarrow> ty w | None \<Rightarrow> False)"

definition ExplorationStartCustomizationArgs :: "'n jsval \<Rightarrow> bool" where
  "ExplorationStartCustomizationArgs p = has_field ''state_name'' value_string p"

definition AnswerSubmitCustomizationArgs :: "'n jsval \<Rightarrow> bool" where
  "AnswerSubmitCustomizationArgs p =
     (has_field ''state_name'' value_string p \<and>
      has_field ''dest_state_name'' value_string p \<and>
      has_field ''interaction_id'' value_string p \<and>
      has_field ''submitted_answer'' value_string p \<and>
      has_field ''feedback'' value_string p \<and>
      has_field ''time_spent_state_in_msecs'' value_number p)"

definition ExplorationQuitCustomizationArgs :: "'n jsval \<Rightarrow> bool" where
  "ExplorationQuitCustomizationArgs p =
     (has_field ''state_name'' value_string p \<and>
      has_field ''time_spent_in_state_in_msecs'' value_number p)"

subsection \<open>Action types, backend dicts and action objects (lines 54--110)\<close>

text \<open>\<^verbatim>\<open>enum LearnerActionType\<close> is a string enum: each member is its string value at run time.\<close>

datatype LearnerActionType = ExplorationStart | AnswerSubmit | ExplorationQuit

fun enum_value :: "LearnerActionType \<Rightarrow> string" where
  "enum_value ExplorationStart = ''ExplorationStart''"
| "enum_value AnswerSubmit = ''AnswerSubmit''"
| "enum_value ExplorationQuit = ''ExplorationQuit''"

text \<open>
  The conditional type \<^verbatim>\<open>ActionCustomizationArgs<ActionType>\<close> (lines 44--49) selects the
  interface that belongs to an action type.
\<close>

fun ActionCustomizationArgs :: "LearnerActionType \<Rightarrow> 'n jsval \<Rightarrow> bool" where
  "ActionCustomizationArgs ExplorationStart = ExplorationStartCustomizationArgs"
| "ActionCustomizationArgs AnswerSubmit = AnswerSubmitCustomizationArgs"
| "ActionCustomizationArgs ExplorationQuit = ExplorationQuitCustomizationArgs"

text \<open>
  \<^verbatim>\<open>LearnerActionBackendDictBase\<close>. The static type of \<^verbatim>\<open>action_type\<close> is the enum, but
  the dict is backend data and the decoder has a branch for any other value, so the field
  is the string found at run time.
\<close>

record 'n LearnerActionBackendDictBase =
  action_type :: string
  action_customization_args :: "'n jsval"
  schema_version :: 'n

text \<open>\<^verbatim>\<open>class LearnerActionBase\<close>: the three constructor parameter properties.\<close>

record 'n LearnerActionBase =
  actionType :: string
  actionCustomizationArgs :: "'n jsval"
  schemaVersion :: 'n

text \<open>
  The three subclasses add nothing to the base class; an object is told apart by the
  class it was constructed with. \<^verbatim>\<open>type LearnerAction\<close> is their union.
\<close>

datatype 'n LearnerAction =
    ExplorationStartLearnerAction "'n LearnerActionBase"
  | AnswerSubmitLearnerAction "'n LearnerActionBase"
  | ExplorationQuitLearnerAction "'n LearnerActionBase"

fun base :: "'n LearnerAction \<Rightarrow> 'n LearnerActionBase" where
  "base (ExplorationStartLearnerAction b) = b"
| "base (AnswerSubmitLearnerAction b) = b"
| "base (ExplorationQuitLearnerAction b) = b"

text \<open>\<^verbatim>\<open>LearnerActionBase.toBackendDict\<close> (lines 89--95), inherited by every subclass.\<close>

definition LearnerActionBase_toBackendDict ::
  "'n LearnerActionBase \<Rightarrow> 'n LearnerActionBackendDictBase" where
  "LearnerActionBase_toBackendDict this =
     \<lparr>action_type = actionType this,
      action_customization_args = actionCustomizationArgs this,
      schema_version = schemaVersion this\<rparr>"

definition toBackendDict :: "'n LearnerAction \<Rightarrow> 'n LearnerActionBackendDictBase" where
  "toBackendDict a = LearnerActionBase_toBackendDict (base a)"

subsection \<open>What the module imports\<close>

text \<open>
  Two names used by the module are defined elsewhere: the constant
  \<^verbatim>\<open>StatisticsDomainConstants.LEARNER_ACTION_SCHEMA_LATEST_VERSION\<close> and the AngularJS
  function \<^verbatim>\<open>angular.toJson\<close>. Both are parameters of the model.
\<close>

record 'n module_imports =
  LEARNER_ACTION_SCHEMA_LATEST_VERSION :: 'n
  angular_toJson :: "'n LearnerActionBackendDictBase \<Rightarrow> string"

subsection \<open>\<^verbatim>\<open>LearnerActionModel\<close> (lines 112--176)\<close>

text \<open>
  The three factory methods. The static type of the parameter is the customization-args
  interface of the kind; the body performs no check and stores the argument as it is.
\<close>

definition createNewExplorationStartAction ::
  "'n module_imports \<Rightarrow> 'n jsval \<Rightarrow> 'n LearnerAction" where
  "createNewExplorationStartAction env actionCustomizationArgs' =
     ExplorationStartLearnerAction
       \<lparr>actionType = enum_value ExplorationStart,
        actionCustomizationArgs = actionCustomizationArgs',
        schemaVersion = LEARNER_ACTION_SCHEMA_LATEST_VERSION env\<rparr>"

definition createNewAnswerSubmitAction ::
  "'n module_imports \<Rightarrow> 'n jsval \<Rightarrow> 'n LearnerAction" where
  "createNewAnswerSubmitAction env actionCustomizationArgs' =
     AnswerSubmitLearnerAction
       \<lparr>actionType = enum_value AnswerSubmit,
        actionCustomizationArgs = actionCustomizationArgs',
        schemaVersion = LEARNER_ACTION_SCHEMA_LATEST_VERSION env\<rparr>"

definition createNewExplorationQuitAction ::
  "'n module_imports \<Rightarrow> 'n jsval \<Rightarrow> 'n LearnerAction" where
  "createNewExplorationQuitAction env actionCustomizationArgs' =
     ExplorationQuitLearnerAction
       \<lparr>actionType = enum_value ExplorationQuit,
        actionCustomizationArgs = actionCustomizationArgs',
        schemaVersion = LEARNER_ACTION_SCHEMA_LATEST_VERSION env\<rparr>"

text \<open>A thrown \<^verbatim>\<open>Error\<close> carries its message.\<close>

datatype error = Error string

text \<open>
  \<^verbatim>\<open>createFromBackendDict\<close> (lines 150--175). The \<^verbatim>\<open>switch\<close> compares
  \<^verbatim>\<open>action_type\<close> with the three enum members in the order written; the
  \<^verbatim>\<open>default\<close> branch leaves the switch and the function throws.
\<close>

definition createFromBackendDict ::
  "'n module_imports \<Rightarrow> 'n LearnerActionBackendDictBase \<Rightarrow> error + 'n LearnerAction" where
  "createFromBackendDict env learnerActionBackendDict =
     (if action_type learnerActionBackendDict = enum_value ExplorationStart then
        Inr (ExplorationStartLearnerAction
          \<lparr>actionType = action_type learnerActionBackendDict,
           actionCustomizationArgs = action_customization_args learnerActionBackendDict,
           schemaVersion = schema_version learnerActionBackendDict\<rparr>)
      else if action_type learnerActionBackendDict = enum_value AnswerSubmit then
        Inr (AnswerSubmitLearnerAction
          \<lparr>actionType = action_type learnerActionBackendDict,
           actionCustomizationArgs = action_customization_args learnerActionBackendDict,
           schemaVersion = schema_version learnerActionBackendDict\<rparr>)
      else if action_type learnerActionBackendDict = enum_value ExplorationQuit then
        Inr (ExplorationQuitLearnerAction
          \<lparr>actionType = action_type learnerActionBackendDict,
           actionCustomizationArgs = action_customization_args learnerActionBackendDict,
           schemaVersion = schema_version learnerActionBackendDict\<rparr>)
      else
        Inl (Error (''Backend dict does not match any known action type: '' @
                    angular_toJson env learnerActionBackendDict)))"

subsection \<open>Which class an action object belongs to\<close>

text \<open>
  Each subclass fixes the type parameter of \<^verbatim>\<open>LearnerActionBase\<close> (lines 98--105):
  \<^verbatim>\<open>ExplorationStartLearnerAction extends LearnerActionBase<LearnerActionType.ExplorationStart>\<close>,
  and likewise for the other two.
\<close>

fun class_parameter :: "'n LearnerAction \<Rightarrow> LearnerActionType" where
  "class_parameter (ExplorationStartLearnerAction b) = ExplorationStart"
| "class_parameter (AnswerSubmitLearnerAction b) = AnswerSubmit"
| "class_parameter (ExplorationQuitLearnerAction b) = ExplorationQuit"

subsection \<open>The codec as the specification words it\<close>

text \<open>
  The specification describes an encoder that wraps each payload field as
  \<^verbatim>\<open>{value: field}\<close> and a decoder that strips that wrapper. These two functions follow
  the specification's words, not the source; they are compared with the source below.
\<close>

definition spec_wrap :: "'n jsval \<Rightarrow> 'n jsval" where
  "spec_wrap v = JObject [(''value'', v)]"

fun spec_wrap_fields :: "'n jsval \<Rightarrow> 'n jsval" where
  "spec_wrap_fields (JObject kvs) = JObject (map (\<lambda>(k, v). (k, spec_wrap v)) kvs)"
| "spec_wrap_fields v = v"

definition spec_unwrap :: "'n jsval \<Rightarrow> 'n jsval" where
  "spec_unwrap w = (case property ''value'' w of Some v \<Rightarrow> v | None \<Rightarrow> w)"

fun spec_unwrap_fields :: "'n jsval \<Rightarrow> 'n jsval" where
  "spec_unwrap_fields (JObject kvs) = JObject (map (\<lambda>(k, w). (k, spec_unwrap w)) kvs)"
| "spec_unwrap_fields v = v"

subsection \<open>Sample inputs\<close>

text \<open>
  The inputs of the specification's concrete scenarios, with numbers taken as integers.
  The sample serializer prints the action type only; every theorem below holds for any
  serializer and any latest version.
\<close>

definition sample_toJson :: "int LearnerActionBackendDictBase \<Rightarrow> string" where
  "sample_toJson d = ''{action_type: '' @ action_type d @ ''}''"

definition sample_imports :: "int module_imports" where
  "sample_imports =
     \<lparr>LEARNER_ACTION_SCHEMA_LATEST_VERSION = 5, angular_toJson = sample_toJson\<rparr>"

definition intro_args :: "int jsval" where
  "intro_args = JObject [(''state_name'', JObject [(''value'', JString ''Introduction'')])]"

definition answer_args :: "int jsval" where
  "answer_args = JObject
     [(''state_name'', JObject [(''value'', JString ''S1'')]),
      (''dest_state_name'', JObject [(''value'', JString ''S2'')]),
      (''interaction_id'', JObject [(''value'', JString ''TextInput'')]),
      (''submitted_answer'', JObject [(''value'', JString ''42'')]),
      (''feedback'', JObject [(''value'', JString ''Good'')]),
      (''time_spent_state_in_msecs'', JObject [(''value'', JNumber 1500)])]"

definition quit_args :: "int jsval" where
  "quit_args = JObject
     [(''state_name'', JObject [(''value'', JString ''S1'')]),
      (''time_spent_in_state_in_msecs'', JObject [(''value'', JNumber 1500)])]"

definition answer_dict :: "int LearnerActionBackendDictBase" where
  "answer_dict =
     \<lparr>action_type = ''AnswerSubmit'', action_customization_args = answer_args,
      schema_version = 1\<rparr>"

definition old_dict :: "int LearnerActionBackendDictBase" where
  "old_dict =
     \<lparr>action_type = ''ExplorationStart'', action_customization_args = intro_args,
      schema_version = 3\<rparr>"

definition bogus_dict :: "int LearnerActionBackendDictBase" where
  "bogus_dict =
     \<lparr>action_type = ''Bogus'', action_customization_args = intro_args,
      schema_version = 1\<rparr>"

definition bare_dict :: "int LearnerActionBackendDictBase" where
  "bare_dict =
     \<lparr>action_type = ''AnswerSubmit'', action_customization_args = JObject [],
      schema_version = - 1\<rparr>"

definition unwrapped_args :: "int jsval" where
  "unwrapped_args = JObject [(''state_name'', JString ''Intro'')]"

definition intro_action :: "int LearnerAction" where
  "intro_action =
     ExplorationStartLearnerAction
       \<lparr>actionType = ''ExplorationStart'', actionCustomizationArgs = intro_args,
        schemaVersion = 1\<rparr>"

definition old_action :: "int LearnerAction" where
  "old_action =
     ExplorationStartLearnerAction
       \<lparr>actionType = ''ExplorationStart'', actionCustomizationArgs = intro_args,
        schemaVersion = 3\<rparr>"

section \<open>Properties\<close>

subsection \<open>Shared facts\<close>

lemma enum_value_inj: "enum_value K = enum_value K' \<longleftrightarrow> K = K'"
  by (cases K; cases K') simp_all

lemma bogus_unknown: "''Bogus'' \<noteq> enum_value K"
  by (cases K) simp_all

lemma toBackendDict_args:
  "action_customization_args (toBackendDict a) = actionCustomizationArgs (base a)"
  by (simp add: toBackendDict_def LearnerActionBase_toBackendDict_def)

lemma intro_args_valid: "ExplorationStartCustomizationArgs intro_args"
  by (simp add: ExplorationStartCustomizationArgs_def has_field_def value_string_def
      intro_args_def)

lemma answer_args_valid: "AnswerSubmitCustomizationArgs answer_args"
  by (simp add: AnswerSubmitCustomizationArgs_def has_field_def value_string_def
      value_number_def answer_args_def)

lemma quit_args_valid: "ExplorationQuitCustomizationArgs quit_args"
  by (simp add: ExplorationQuitCustomizationArgs_def has_field_def value_string_def
      value_number_def quit_args_def)

lemma unwrapped_args_invalid: "\<not> ExplorationStartCustomizationArgs unwrapped_args"
  by (simp add: ExplorationStartCustomizationArgs_def has_field_def value_string_def
      unwrapped_args_def)

lemma has_field_value_string:
  "has_field k value_string p \<Longrightarrow>
     \<exists>w s. property k p = Some w \<and> property ''value'' w = Some (JString s)"
  by (auto simp: has_field_def value_string_def split: option.splits jsval.splits)

lemma has_field_value_number:
  "has_field k value_number p \<Longrightarrow>
     \<exists>w n. property k p = Some w \<and> property ''value'' w = Some (JNumber n)"
  by (auto simp: has_field_def value_number_def split: option.splits jsval.splits)

lemma decode_payload:
  "createFromBackendDict env d = Inr a \<Longrightarrow>
     actionCustomizationArgs (base a) = action_customization_args d"
  by (auto simp: createFromBackendDict_def split: if_splits)

lemma decode_success_indep:
  "isl (createFromBackendDict env d) = isl (createFromBackendDict env' d)"
  by (simp add: createFromBackendDict_def)

lemma decode_toJson_only:
  "angular_toJson env = angular_toJson env' \<Longrightarrow>
     createFromBackendDict env d = createFromBackendDict env' d"
  by (simp add: createFromBackendDict_def)

subsection \<open>The concrete scenarios\<close>

lemma scenario_create_exploration_start:
  "createNewExplorationStartAction sample_imports intro_args =
     ExplorationStartLearnerAction
       \<lparr>actionType = ''ExplorationStart'', actionCustomizationArgs = intro_args,
        schemaVersion = 5\<rparr>"
  by (simp add: createNewExplorationStartAction_def sample_imports_def)

lemma scenario_decode_answer_submit:
  "createFromBackendDict sample_imports answer_dict =
     Inr (AnswerSubmitLearnerAction
       \<lparr>actionType = ''AnswerSubmit'', actionCustomizationArgs = answer_args,
        schemaVersion = 1\<rparr>)"
  by (simp add: createFromBackendDict_def answer_dict_def)

lemma scenario_decode_bogus:
  "isl (createFromBackendDict sample_imports bogus_dict)"
  by (simp add: createFromBackendDict_def bogus_dict_def)

text \<open>
  A dict whose \<open>state_name\<close> is a bare string is not rejected: it decodes to an action
  that holds the payload as given, which does not conform to the interface.
\<close>

lemma scenario_decode_unwrapped_field:
  "createFromBackendDict sample_imports
     \<lparr>action_type = ''ExplorationStart'', action_customization_args = unwrapped_args,
      schema_version = 1\<rparr>
   = Inr (ExplorationStartLearnerAction
       \<lparr>actionType = ''ExplorationStart'', actionCustomizationArgs = unwrapped_args,
        schemaVersion = 1\<rparr>)"
  by (simp add: createFromBackendDict_def)

subsection \<open>Round trip\<close>

text \<open>
  Claim C1. For each of the three factory methods and every payload \<open>P\<close> (in particular
  every payload that conforms to the method's customization-args interface), decoding the
  backend dict of the freshly created action gives back that action: the same class, the
  same \<open>actionType\<close>, the same \<open>actionCustomizationArgs\<close> and the same
  \<open>schemaVersion\<close>. The decoder may run under other imports \<open>env'\<close> than the factory
  did, for instance after the latest schema version has been raised.
\<close>

theorem roundtrip_fresh_action:
  "createFromBackendDict env' (toBackendDict (createNewExplorationStartAction env P))
     = Inr (createNewExplorationStartAction env P)
   \<and> createFromBackendDict env' (toBackendDict (createNewAnswerSubmitAction env P))
     = Inr (createNewAnswerSubmitAction env P)
   \<and> createFromBackendDict env' (toBackendDict (createNewExplorationQuitAction env P))
     = Inr (createNewExplorationQuitAction env P)"
  by (simp add: createFromBackendDict_def toBackendDict_def LearnerActionBase_toBackendDict_def
      createNewExplorationStartAction_def createNewAnswerSubmitAction_def
      createNewExplorationQuitAction_def)

subsection \<open>Unknown action types\<close>

text \<open>
  Claim C2. When the dict's \<open>action_type\<close> is none of the three enum values,
  \<open>createFromBackendDict\<close> throws an \<open>Error\<close> whose message ends with the serialized
  dict, \<open>angular.toJson\<close> applied to it; it returns no action.
\<close>

theorem unknown_action_type_throws:
  assumes "\<forall>K. action_type d \<noteq> enum_value K"
  shows "createFromBackendDict env d =
           Inl (Error (''Backend dict does not match any known action type: '' @
                       angular_toJson env d))
         \<and> (\<forall>a. createFromBackendDict env d \<noteq> Inr a)"
proof -
  have "action_type d \<noteq> enum_value ExplorationStart"
    and "action_type d \<noteq> enum_value AnswerSubmit"
    and "action_type d \<noteq> enum_value ExplorationQuit"
    using assms by blast+
  then show ?thesis by (simp add: createFromBackendDict_def)
qed

theorem unknown_action_type_throws_witness:
  "(\<forall>K. action_type bogus_dict \<noteq> enum_value K) \<and>
   createFromBackendDict sample_imports bogus_dict =
     Inl (Error ''Backend dict does not match any known action type: {action_type: Bogus}'')"
proof -
  have h: "\<forall>K. action_type bogus_dict \<noteq> enum_value K"
    by (simp add: bogus_dict_def bogus_unknown)
  show ?thesis
    using h unknown_action_type_throws [OF h, of sample_imports]
    by (simp add: sample_imports_def sample_toJson_def bogus_dict_def)
qed

subsection \<open>Schema versions\<close>

text \<open>
  Claim C3. Each factory method returns an action whose \<open>schemaVersion\<close> is the value
  of \<open>LEARNER_ACTION_SCHEMA_LATEST_VERSION\<close> it reads when called, for every payload
  (in particular every structurally valid one).
\<close>

theorem factory_stamps_latest_version:
  "schemaVersion (base (createNewExplorationStartAction env P))
     = LEARNER_ACTION_SCHEMA_LATEST_VERSION env
   \<and> schemaVersion (base (createNewAnswerSubmitAction env P))
     = LEARNER_ACTION_SCHEMA_LATEST_VERSION env
   \<and> schemaVersion (base (createNewExplorationQuitAction env P))
     = LEARNER_ACTION_SCHEMA_LATEST_VERSION env"
  by (simp add: createNewExplorationStartAction_def createNewAnswerSubmitAction_def
      createNewExplorationQuitAction_def)

text \<open>
  Claim C4. For a dict with a known \<open>action_type\<close>, the decoded action's
  \<open>schemaVersion\<close> is the dict's \<open>schema_version\<close>, whatever the imports \<open>env\<close>
  hold as the latest schema version: replacing that constant by any \<open>v\<close> does not change
  the result.
\<close>

theorem decode_preserves_schema_version:
  assumes "action_type d = enum_value K"
  shows "(\<exists>a. createFromBackendDict env d = Inr a \<and> schemaVersion (base a) = schema_version d)
         \<and> createFromBackendDict (env\<lparr>LEARNER_ACTION_SCHEMA_LATEST_VERSION := v\<rparr>) d
           = createFromBackendDict env d"
  using assms by (cases K) (simp_all add: createFromBackendDict_def)

theorem decode_preserves_schema_version_witness:
  "action_type old_dict = enum_value ExplorationStart
   \<and> LEARNER_ACTION_SCHEMA_LATEST_VERSION sample_imports = 5
   \<and> (\<exists>a. createFromBackendDict sample_imports old_dict = Inr a \<and> schemaVersion (base a) = 3)
   \<and> createFromBackendDict (sample_imports\<lparr>LEARNER_ACTION_SCHEMA_LATEST_VERSION := 7\<rparr>) old_dict
     = createFromBackendDict sample_imports old_dict"
proof -
  have h: "action_type old_dict = enum_value ExplorationStart"
    by (simp add: old_dict_def)
  show ?thesis
    using h decode_preserves_schema_version [OF h, of sample_imports 7]
    by (simp add: old_dict_def sample_imports_def)
qed

subsection \<open>Dispatch on the action type\<close>

text \<open>
  Claim C6. For every enum member \<open>K\<close> and every dict whose \<open>action_type\<close> is the
  value of \<open>K\<close>, \<open>createFromBackendDict\<close> returns an object of the subclass declared
  for \<open>K\<close> whose \<open>actionType\<close> is the value of \<open>K\<close>; the throwing branch is not
  reached.
\<close>

theorem decode_dispatches_on_known_type:
  assumes "action_type d = enum_value K"
  shows "\<exists>a. createFromBackendDict env d = Inr a \<and> class_parameter a = K
             \<and> actionType (base a) = enum_value K"
  using assms by (cases K) (simp_all add: createFromBackendDict_def)

theorem decode_dispatches_on_known_type_witness:
  "action_type answer_dict = enum_value AnswerSubmit
   \<and> (\<exists>a. createFromBackendDict sample_imports answer_dict = Inr a
          \<and> class_parameter a = AnswerSubmit \<and> actionType (base a) = ''AnswerSubmit'')"
proof -
  have h: "action_type answer_dict = enum_value AnswerSubmit"
    by (simp add: answer_dict_def)
  show ?thesis
    using h decode_dispatches_on_known_type [OF h, of sample_imports] by simp
qed

subsection \<open>Encoding\<close>

text \<open>
  Claim C7. \<open>toBackendDict\<close> has no failing branch: for every action it returns the dict
  with exactly the three fields \<open>action_type\<close>, \<open>action_customization_args\<close> and
  \<open>schema_version\<close>, holding the action's \<open>actionType\<close>, its payload and its
  \<open>schemaVersion\<close>. When the payload conforms to the customization-args interface of a
  kind \<open>K\<close> (every declared field of the form \<^verbatim>\<open>{value: ...}\<close>), so does the dict's
  \<open>action_customization_args\<close>.
\<close>

theorem toBackendDict_fields:
  "toBackendDict a =
     \<lparr>action_type = actionType (base a),
      action_customization_args = actionCustomizationArgs (base a),
      schema_version = schemaVersion (base a)\<rparr>
   \<and> (ActionCustomizationArgs K (actionCustomizationArgs (base a)) \<longrightarrow>
        ActionCustomizationArgs K (action_customization_args (toBackendDict a)))"
  by (simp add: toBackendDict_def LearnerActionBase_toBackendDict_def)

theorem toBackendDict_fields_witness:
  "ActionCustomizationArgs ExplorationStart (actionCustomizationArgs (base intro_action))
   \<and> toBackendDict intro_action =
       \<lparr>action_type = ''ExplorationStart'', action_customization_args = intro_args,
        schema_version = 1\<rparr>
   \<and> ActionCustomizationArgs ExplorationStart
       (action_customization_args (toBackendDict intro_action))"
proof -
  have h: "ActionCustomizationArgs ExplorationStart (actionCustomizationArgs (base intro_action))"
    by (simp add: intro_action_def intro_args_valid)
  show ?thesis
    using h toBackendDict_fields [of intro_action ExplorationStart]
    by (simp add: intro_action_def)
qed

subsection \<open>The decoder validates nothing but the action type\<close>

text \<open>
  Claim C10. For every dict whose \<open>action_type\<close> is an enum value, decoding succeeds and
  the action carries the dict's \<open>action_customization_args\<close> and \<open>schema_version\<close>
  unchanged, whatever they are; and whether decoding succeeds is the same for any two dicts
  with the same \<open>action_type\<close>. The witness decodes an \<open>AnswerSubmit\<close> dict with an
  empty payload and the schema version \<open>-1\<close>.
\<close>

theorem decode_checks_action_type_only:
  assumes "action_type d = enum_value K"
  shows "(\<exists>a. createFromBackendDict env d = Inr a
            \<and> actionCustomizationArgs (base a) = action_customization_args d
            \<and> schemaVersion (base a) = schema_version d)
         \<and> (\<forall>d'. action_type d' = action_type d \<longrightarrow>
               isl (createFromBackendDict env d') = isl (createFromBackendDict env d))"
  using assms by (cases K) (simp_all add: createFromBackendDict_def)

theorem decode_checks_action_type_only_witness:
  "action_type bare_dict = enum_value AnswerSubmit
   \<and> \<not> AnswerSubmitCustomizationArgs (action_customization_args bare_dict)
   \<and> schema_version bare_dict < 0
   \<and> (\<exists>a. createFromBackendDict sample_imports bare_dict = Inr a
          \<and> actionCustomizationArgs (base a) = JObject []
          \<and> schemaVersion (base a) = - 1)"
proof -
  have h: "action_type bare_dict = enum_value AnswerSubmit"
    by (simp add: bare_dict_def)
  have v: "\<not> AnswerSubmitCustomizationArgs (action_customization_args bare_dict)"
    by (simp add: bare_dict_def AnswerSubmitCustomizationArgs_def has_field_def)
  show ?thesis
    using h v decode_checks_action_type_only [OF h, of sample_imports]
    by (simp add: bare_dict_def)
qed

subsection \<open>The \<^verbatim>\<open>{value: ...}\<close> wrapper\<close>

text \<open>
  Claim C5, as stated: the encoder wraps each payload field as \<^verbatim>\<open>{value: ...}\<close> and the
  decoder strips the wrapper, so that the in-memory payload is unwrapped. The source does
  neither. Encoding the action built from the payload
  \<^verbatim>\<open>{state_name: {value: "Introduction"}}\<close> gives that payload, not the payload with
  each field wrapped once more; decoding a dict with these customization args gives an
  action holding them as they are, not with the wrapper stripped.
\<close>

theorem codec_does_not_rewrap_counterexample:
  "action_customization_args (toBackendDict intro_action)
     \<noteq> spec_wrap_fields (actionCustomizationArgs (base intro_action))
   \<and> createFromBackendDict sample_imports old_dict = Inr old_action
   \<and> actionCustomizationArgs (base old_action)
     \<noteq> spec_unwrap_fields (action_customization_args old_dict)"
  by (simp add: toBackendDict_def LearnerActionBase_toBackendDict_def intro_action_def
      intro_args_def spec_wrap_def spec_unwrap_def createFromBackendDict_def old_dict_def
      old_action_def)

text \<open>
  Claim C5, amended: the encoder copies the action's payload into
  \<open>action_customization_args\<close> unchanged and the decoder copies
  \<open>action_customization_args\<close> into the action's payload unchanged. The
  \<^verbatim>\<open>{value: ...}\<close> wrapper is part of the in-memory payload: in a payload that conforms
  to the customization-args interface of a kind, every field the interface declares is an
  object whose property \<open>value\<close> is a string (a number for the two time fields).
\<close>

theorem payload_passes_through_unchanged:
  "action_customization_args (toBackendDict a) = actionCustomizationArgs (base a)
   \<and> (createFromBackendDict env d = Inr a' \<longrightarrow>
        actionCustomizationArgs (base a') = action_customization_args d)
   \<and> (ExplorationStartCustomizationArgs pS \<longrightarrow>
        (\<exists>w s. property ''state_name'' pS = Some w \<and> property ''value'' w = Some (JString s)))
   \<and> (AnswerSubmitCustomizationArgs pA \<longrightarrow>
        (\<exists>w s. property ''state_name'' pA = Some w \<and> property ''value'' w = Some (JString s))
      \<and> (\<exists>w s. property ''dest_state_name'' pA = Some w
                \<and> property ''value'' w = Some (JString s))
      \<and> (\<exists>w s. property ''interaction_id'' pA = Some w
                \<and> property ''value'' w = Some (JString s))
      \<and> (\<exists>w s. property ''submitted_answer'' pA = Some w
                \<and> property ''value'' w = Some (JString s))
      \<and> (\<exists>w s. property ''feedback'' pA = Some w \<and> property ''value'' w = Some (JString s))
      \<and> (\<exists>w n. property ''time_spent_state_in_msecs'' pA = Some w
                \<and> property ''value'' w = Some (JNumber n)))
   \<and> (ExplorationQuitCustomizationArgs pQ \<longrightarrow>
        (\<exists>w s. property ''state_name'' pQ = Some w \<and> property ''value'' w = Some (JString s))
      \<and> (\<exists>w n. property ''time_spent_in_state_in_msecs'' pQ = Some w
                \<and> property ''value'' w = Some (JNumber n)))"
proof (intro conjI impI)
  show "action_customization_args (toBackendDict a) = actionCustomizationArgs (base a)"
    by (rule toBackendDict_args)
next
  assume "createFromBackendDict env d = Inr a'"
  then show "actionCustomizationArgs (base a') = action_customization_args d"
    by (rule decode_payload)
next
  assume v: "ExplorationStartCustomizationArgs pS"
  show "\<exists>w s. property ''state_name'' pS = Some w
               \<and> property ''value'' w = Some (JString s)"
    by (rule has_field_value_string) (use v in \<open>simp add: ExplorationStartCustomizationArgs_def\<close>)
next
  assume v: "AnswerSubmitCustomizationArgs pA"
  show "\<exists>w s. property ''state_name'' pA = Some w
                 \<and> property ''value'' w = Some (JString s)"
    by (rule has_field_value_string) (use v in \<open>simp add: AnswerSubmitCustomizationArgs_def\<close>)
  show "\<exists>w s. property ''dest_state_name'' pA = Some w
                 \<and> property ''value'' w = Some (JString s)"
    by (rule has_field_value_string) (use v in \<open>simp add: AnswerSubmitCustomizationArgs_def\<close>)
  show "\<exists>w s. property ''interaction_id'' pA = Some w
                 \<and> property ''value'' w = Some (JString s)"
    by (rule has_field_value_string) (use v in \<open>simp add: AnswerSubmitCustomizationArgs_def\<close>)
  show "\<exists>w s. property ''submitted_answer'' pA = Some w
                 \<and> property ''value'' w = Some (JString s)"
    by (rule has_field_value_string) (use v in \<open>simp add: AnswerSubmitCustomizationArgs_def\<close>)
  show "\<exists>w s. property ''feedback'' pA = Some w
                 \<and> property ''value'' w = Some (JString s)"
    by (rule has_field_value_string) (use v in \<open>simp add: AnswerSubmitCustomizationArgs_def\<close>)
  show "\<exists>w n. property ''time_spent_state_in_msecs'' pA = Some w
                 \<and> property ''value'' w = Some (JNumber n)"
    by (rule has_field_value_number) (use v in \<open>simp add: AnswerSubmitCustomizationArgs_def\<close>)
next
  assume v: "ExplorationQuitCustomizationArgs pQ"
  show "\<exists>w s. property ''state_name'' pQ = Some w
                 \<and> property ''value'' w = Some (JString s)"
    by (rule has_field_value_string) (use v in \<open>simp add: ExplorationQuitCustomizationArgs_def\<close>)
  show "\<exists>w n. property ''time_spent_in_state_in_msecs'' pQ = Some w
                 \<and> property ''value'' w = Some (JNumber n)"
    by (rule has_field_value_number) (use v in \<open>simp add: ExplorationQuitCustomizationArgs_def\<close>)
qed

theorem payload_passes_through_unchanged_witness:
  "createFromBackendDict sample_imports old_dict = Inr old_action
   \<and> ExplorationStartCustomizationArgs intro_args
   \<and> AnswerSubmitCustomizationArgs answer_args
   \<and> ExplorationQuitCustomizationArgs quit_args
   \<and> action_customization_args (toBackendDict intro_action) = intro_args
   \<and> actionCustomizationArgs (base old_action) = intro_args
   \<and> (\<exists>w s. property ''state_name'' intro_args = Some w
            \<and> property ''value'' w = Some (JString s))
   \<and> (\<exists>w s. property ''feedback'' answer_args = Some w
            \<and> property ''value'' w = Some (JString s))
   \<and> (\<exists>w n. property ''time_spent_state_in_msecs'' answer_args = Some w
            \<and> property ''value'' w = Some (JNumber n))
   \<and> (\<exists>w n. property ''time_spent_in_state_in_msecs'' quit_args = Some w
            \<and> property ''value'' w = Some (JNumber n))"
proof -
  have h1: "createFromBackendDict sample_imports old_dict = Inr old_action"
    by (simp add: createFromBackendDict_def old_dict_def old_action_def)
  have h2: "ExplorationStartCustomizationArgs intro_args"
    by (rule intro_args_valid)
  have h3: "AnswerSubmitCustomizationArgs answer_args"
    by (rule answer_args_valid)
  have h4: "ExplorationQuitCustomizationArgs quit_args"
    by (rule quit_args_valid)
  have e: "actionCustomizationArgs (base intro_action) = intro_args"
    and f: "action_customization_args old_dict = intro_args"
    by (simp_all add: intro_action_def old_dict_def)
  show ?thesis
    using h1 h2 h3 h4 e f
      payload_passes_through_unchanged
        [where a = intro_action and env = sample_imports and d = old_dict
           and a' = old_action and pS = intro_args and pA = answer_args and pQ = quit_args]
    by simp
qed

end
